theory Spec2Isabelle
  imports Complex_Main
begin

section \<open>Values of the Python program\<close>

text \<open>
  The classifiers of \<^verbatim>\<open>classy/taxonomies\<close> work on floating-point numbers.
  A finite float is modelled by the real number it stands for (rounding is not
  modelled). The albedo of the Tholen tree can also be NaN or infinite.

  A raised exception is a value. A name that a module reads and never binds
  raises \<^verbatim>\<open>NameError\<close>, an attribute that an object does not have raises
  \<^verbatim>\<open>AttributeError\<close>, a call of an object that is not callable raises
  \<^verbatim>\<open>TypeError\<close>: the model follows the import statements of each module as
  they are written.
\<close>

datatype npfloat = Fin real | PInf | NInf | NaN

datatype pyerr =
    ValueError string
  | AttributeError string
  | NameError string
  | IndexError string
  | KeyError string
  | TypeError string

datatype pyval = PyNone | PyStr string

section \<open>Tholen 1984: \<^verbatim>\<open>taxonomies/tholen.py\<close>\<close>

text \<open>
  One row of the file \<^verbatim>\<open>ecas/ecas_scores.csv\<close>, with the columns that
  \<^verbatim>\<open>decision_tree\<close> names. The file is not part of the sources: its content
  is a parameter.
\<close>

record ecas_row =
  PC1 :: real
  PC2 :: real
  PC3 :: real
  PC4 :: real
  PC5 :: real
  PC6 :: real
  PC7 :: real
  row_class :: string

text \<open>The attributes of a spectrum that \<^verbatim>\<open>decision_tree\<close> names.\<close>

record tholen_spectrum =
  tholen_scores :: "real list"
  pV :: npfloat

text \<open>
  Running the module. Line 2 binds \<^verbatim>\<open>cache\<close> to \<^verbatim>\<open>functools.cache\<close> and
  line 4 binds the same name again, to the module \<^verbatim>\<open>classy.cache\<close> (line 47
  uses it as that module). The decorator of line 33 calls what \<^verbatim>\<open>cache\<close> is
  bound to: a module, which is not callable. The import of \<^verbatim>\<open>tholen.py\<close>
  ends there.
\<close>

definition import_tholen :: "pyerr + unit" where
  "import_tholen = Inl (TypeError ''module object is not callable'')"

text \<open>
  The body of \<^verbatim>\<open>load_classification\<close>, lines 43 to 49. Line 44 reads
  \<^verbatim>\<open>config.PATH_CACHE\<close>; \<^verbatim>\<open>config.py\<close> binds \<^verbatim>\<open>PATH_DATA\<close> and
  \<^verbatim>\<open>EXTRAPOLATION_LIMIT\<close> and no \<^verbatim>\<open>PATH_CACHE\<close>. Line 49, which would
  read the file, also names \<^verbatim>\<open>pd\<close>, which \<^verbatim>\<open>tholen.py\<close> never imports.
\<close>

definition load_classification :: "ecas_row list \<Rightarrow> pyerr + ecas_row list" where
  "load_classification file = Inl (AttributeError ''PATH_CACHE'')"

text \<open>
  Lines 68 to 100 of \<^verbatim>\<open>decision_tree\<close>, given the table that line 67 has
  obtained. Every step names \<^verbatim>\<open>np\<close> (\<^verbatim>\<open>np.linalg.norm\<close> in line 72,
  \<^verbatim>\<open>np.argmin\<close> in line 75, \<^verbatim>\<open>np.isnan\<close> and \<^verbatim>\<open>np.log10\<close> from
  line 83 on), which \<^verbatim>\<open>tholen.py\<close> never imports. With an empty table the
  list of line 71 is empty and line 75 is the first to read the name; with any
  other table it is line 72. In both cases the lines raise \<^verbatim>\<open>NameError\<close>
  before a class is chosen.
\<close>

definition decision_tree_on_table :: "ecas_row list \<Rightarrow> tholen_spectrum \<Rightarrow> pyerr + string" where
  "decision_tree_on_table tholen spec = Inl (NameError ''np'')"

text \<open>The body of \<^verbatim>\<open>decision_tree\<close>: line 67, then lines 68 to 100.\<close>

definition decision_tree_tholen :: "ecas_row list \<Rightarrow> tholen_spectrum \<Rightarrow> pyerr + string" where
  "decision_tree_tholen file spec =
     (case load_classification file of
        Inl e \<Rightarrow> Inl e
      | Inr tholen \<Rightarrow> decision_tree_on_table tholen spec)"

section \<open>DeMeo+ 2009: \<^verbatim>\<open>taxonomies/demeo.py\<close>\<close>

text \<open>
  The class \<^verbatim>\<open>Spectrum\<close> is not part of the sources. A spectrum is modelled by
  the attributes that \<^verbatim>\<open>demeo.py\<close> reads and writes. An attribute that only
  classification code could assign is optional: \<open>None\<close> is "not set", and
  reading it raises \<^verbatim>\<open>AttributeError\<close>. The value of \<^verbatim>\<open>class_demeo\<close> is a
  string or Python's \<^verbatim>\<open>None\<close>. Floats are finite and modelled by reals.

  A function that mutates the spectrum returns the spectrum as it is left, the
  messages it handed to the logger, and how it ended: \<open>Inr v\<close> for a return of
  \<open>v\<close>, \<open>Inl e\<close> for a raised exception. \<^verbatim>\<open>print\<close> and \<^verbatim>\<open>breakpoint\<close>
  are not modelled.

  \<^verbatim>\<open>demeo.py\<close> binds the names \<^verbatim>\<open>lru_cache\<close>, \<^verbatim>\<open>np\<close>, \<^verbatim>\<open>pd\<close>,
  \<^verbatim>\<open>cache\<close>, \<^verbatim>\<open>config\<close> and \<^verbatim>\<open>logger\<close>. It binds neither \<^verbatim>\<open>classy\<close>
  nor \<^verbatim>\<open>data\<close>.
\<close>

record demeo_spectrum =
  name :: string
  wave :: "real list"
  refl :: "real list"
  slope :: "real list"
  is_preprocessed_demeo :: bool
  scores_demeo :: "real list option"
  class_demeo :: "pyval option"
  pc0_demeo :: "real option"
  pc1_demeo :: "real option"
  pc2_demeo :: "real option"
  pc3_demeo :: "real option"
  pc4_demeo :: "real option"

type_synonym run = "demeo_spectrum \<times> string list \<times> (pyerr + pyval)"

subsection \<open>Constants\<close>

text \<open>
  \<^verbatim>\<open>np.arange(start, stop, step)\<close>: \<open>ceil((stop - start) / step)\<close> values
  \<open>start + i * step\<close>.
\<close>

definition np_arange :: "real \<Rightarrow> real \<Rightarrow> real \<Rightarrow> real list" where
  "np_arange start stop step =
     map (\<lambda>i. start + real i * step) [0..<nat \<lceil>(stop - start) / step\<rceil>]"

definition WAVE :: "real list" where
  "WAVE = np_arange 0.45 2.5 0.05"

definition DATA_MEAN :: "real list" where
  "DATA_MEAN =
     [0.8840578, 0.94579985, 1.04016798, 1.07630094, 1.10387232, 1.10729138, 1.07101476, 1.02252107,
      0.99167561, 0.98766575, 1.00292349, 1.02223844, 1.04660108, 1.07201578, 1.08967345, 1.10014259,
      1.11101667, 1.12359452, 1.13128556, 1.13642896, 1.13467689, 1.12810013, 1.11471935, 1.09802574,
      1.07842635, 1.06127665, 1.04536074, 1.03360292, 1.02395605, 1.01587389, 1.01034821, 1.00915786,
      1.01078308, 1.01245031, 1.01298133, 1.01314109, 1.01236654, 1.01140562, 1.01090655, 1.00955344]"

definition EIGENVECTORS :: "real list list" where
  "EIGENVECTORS =
     [[- 0.0766, - 0.0391, 0.0438, 0.0876, 0.1256, 0.1466, 0.1271, 0.0888, 0.0680, 0.0857, 0.1371,
       0.1921, 0.2322, 0.2566, 0.2704, 0.2787, 0.2849, 0.2852, 0.2782, 0.2641, 0.2427, 0.2154,
       0.1841, 0.1531, 0.1247, 0.1002, 0.0804, 0.0665, 0.0570, 0.0513, 0.0502, 0.0538, 0.0607,
       0.0690, 0.0778, 0.0859, 0.0934, 0.0997, 0.1050, 0.1090],
      [- 0.0643, - 0.0279, 0.0176, 0.0343, 0.0471, 0.0096, - 0.1186, - 0.2673, - 0.3645, - 0.3743,
       - 0.2899, - 0.1527, - 0.0381, 0.0306, 0.0708, 0.1053, 0.1385, 0.1598, 0.1645, 0.1520,
       0.1192, 0.0689, 0.0089, - 0.0514, - 0.1069, - 0.1532, - 0.1884, - 0.2136, - 0.2283, - 0.2317,
       - 0.2233, - 0.2023, - 0.1706, - 0.1302, - 0.0852, - 0.0406, 0.0023, 0.0438, 0.0832, 0.1177],
      [- 0.2724, - 0.1270, 0.1128, 0.2104, 0.2726, 0.2475, 0.1486, 0.0420, - 0.0385, - 0.1168,
       - 0.2083, - 0.2809, - 0.2747, - 0.2169, - 0.1713, - 0.1427, - 0.1031, - 0.0407, 0.0243, 0.0930,
       0.1562, 0.2021, 0.2231, 0.2215, 0.2043, 0.1784, 0.1508, 0.1225, 0.0923, 0.0617, 0.0346,
       0.0136, - 0.0038, - 0.0229, - 0.0447, - 0.0678, - 0.0911, - 0.1153, - 0.1389, - 0.1580],
      [0.3046, 0.1525, - 0.1486, - 0.2677, - 0.3386, - 0.3284, - 0.2392, - 0.1453, - 0.0921, - 0.0505,
       - 0.0289, - 0.0277, - 0.0160, 0.0077, 0.0304, 0.0450, 0.0608, 0.0842, 0.1104, 0.1387, 0.1609,
       0.1752, 0.1804, 0.1714, 0.1550, 0.1421, 0.1279, 0.1095, 0.0868, 0.0610, 0.0358, 0.0103,
       - 0.0162, - 0.0476, - 0.0838, - 0.1225, - 0.1644, - 0.2068, - 0.2445, - 0.2708],
      [- 0.5174, - 0.1876, 0.0593, 0.0754, 0.0523, - 0.0231, - 0.1466, - 0.2569, - 0.2293, - 0.0657, 0.1077,
       0.1717, 0.1685, 0.1611, 0.1463, 0.1061, 0.0533, 0.0090, - 0.0429, - 0.0868, - 0.1188, - 0.1250,
       - 0.1158, - 0.0940, - 0.0757, - 0.0525, - 0.0271, 0.0104, 0.0473, 0.0785, 0.1050, 0.1249, 0.1241,
       0.0916, 0.0354, - 0.0327, - 0.1126, - 0.1993, - 0.2884, - 0.3767]]"

text \<open>The eight boundary lines, each giving \<open>pc1\<close> on the line at \<open>pc2\<close>.\<close>

definition alpha :: "real \<Rightarrow> real" where "alpha pc2 = - 3 * pc2 - 0.28"
definition beta :: "real \<Rightarrow> real" where "beta pc2 = - 3 * pc2 + 0.35"
definition gamma :: "real \<Rightarrow> real" where "gamma pc2 = - 3 * pc2 + 1.0"
definition delta :: "real \<Rightarrow> real" where "delta pc2 = - 3 * pc2 + 1.5"
definition epsilon :: "real \<Rightarrow> real" where "epsilon pc2 = 1 / 3 * pc2 + 0.55"
definition zeta :: "real \<Rightarrow> real" where "zeta pc2 = 1 / 3 * pc2 - 0.10"
definition eta :: "real \<Rightarrow> real" where "eta pc2 = 1 / 3 * pc2 - 0.40"
definition theta :: "real \<Rightarrow> real" where "theta pc2 = - 3 * pc2 + 0.7"

subsection \<open>The start of \<^verbatim>\<open>classify\<close>\<close>



text \<open>
  \<^verbatim>\<open>a != b\<close> on one-dimensional arrays gives an array of booleans, after
  broadcasting a one-element operand; shapes that cannot be broadcast raise (in
  numpy before 1.25 the comparison is \<^verbatim>\<open>True\<close> instead, and \<^verbatim>\<open>classify\<close>
  then raises its own \<^verbatim>\<open>ValueError\<close>).
\<close>

definition np_ne :: "real list \<Rightarrow> real list \<Rightarrow> pyerr + bool list" where
  "np_ne a b =
     (if length a = length b then Inr (map2 (\<noteq>) a b)
      else if length a = 1 then Inr (map (\<lambda>y. hd a \<noteq> y) b)
      else if length b = 1 then Inr (map (\<lambda>x. x \<noteq> hd b) a)
      else Inl (ValueError ''operands could not be broadcast together''))"

text \<open>The truth value of an array in an \<^verbatim>\<open>if\<close>.\<close>

definition array_truth :: "bool list \<Rightarrow> pyerr + bool" where
  "array_truth bs =
     (case bs of
        [] \<Rightarrow> Inr False
      | [b] \<Rightarrow> Inr b
      | _ \<Rightarrow> Inl (ValueError
          ''The truth value of an array with more than one element is ambiguous''))"

text \<open>
  Lines 100 to 102 of \<^verbatim>\<open>classify\<close>: the reflectance without its element 2,
  minus \<^verbatim>\<open>DATA_MEAN\<close> in place, which needs equal lengths.
\<close>

definition demean :: "real list \<Rightarrow> pyerr + real list" where
  "demean r =
     (let refl' = take 2 r @ drop 3 r
      in if length refl' = length DATA_MEAN then Inr (map2 (-) refl' DATA_MEAN)
         else Inl (ValueError ''operands could not be broadcast together''))"

subsection \<open>The decision tree\<close>

text \<open>
  \<^verbatim>\<open>spec.class_demeo = c; return\<close>, and the same assignment followed by
  \<^verbatim>\<open>classy.logging.logger.warning(...)\<close>. The call reads the name
  \<^verbatim>\<open>classy\<close> before anything else and raises \<^verbatim>\<open>NameError\<close>: the
  assignment stays, nothing is logged, and the \<^verbatim>\<open>return\<close> after the call is
  not reached.
\<close>

definition assign :: "string \<Rightarrow> demeo_spectrum \<Rightarrow> run" where
  "assign c spec = (spec\<lparr>class_demeo := Some (PyStr c)\<rparr>, [], Inr PyNone)"

definition assign_warn :: "string \<Rightarrow> demeo_spectrum \<Rightarrow> run" where
  "assign_warn c spec = (spec\<lparr>class_demeo := Some (PyStr c)\<rparr>, [], Inl (NameError ''classy''))"

definition raise :: "pyerr \<Rightarrow> demeo_spectrum \<Rightarrow> run" where
  "raise e spec = (spec, [], Inl e)"

definition demeo_s_complex :: "demeo_spectrum \<Rightarrow> run" where
  "demeo_s_complex spec =
     (case pc0_demeo spec of None \<Rightarrow> raise (AttributeError ''pc0_demeo'') spec | Some pc1 \<Rightarrow>
      case pc1_demeo spec of None \<Rightarrow> raise (AttributeError ''pc1_demeo'') spec | Some pc2 \<Rightarrow>
      case pc2_demeo spec of None \<Rightarrow> raise (AttributeError ''pc2_demeo'') spec | Some pc3 \<Rightarrow>
      case pc3_demeo spec of None \<Rightarrow> raise (AttributeError ''pc3_demeo'') spec | Some pc4 \<Rightarrow>
      case slope spec of [] \<Rightarrow> raise (IndexError ''index 0 is out of bounds'') spec | sl # _ \<Rightarrow>
        if pc1 < beta pc2 \<and> pc1 > delta pc2 then
          (if sl \<ge> 0.25 then assign ''Sw'' spec else assign ''S'' spec)
        else if pc1 \<ge> alpha pc2 \<and> pc1 < beta pc2 \<and> pc1 > eta pc2 \<and> pc1 \<le> zeta pc2 then
          (if sl \<ge> 0.25 then assign ''Sqw'' spec else assign ''Sq'' spec)
        else if pc1 \<ge> beta pc2 \<and> pc1 < gamma pc2 \<and> pc1 > eta pc2 \<and> pc1 \<le> epsilon pc2 then
          (if sl \<ge> 0.25 then assign ''Srw'' spec else assign ''Sr'' spec)
        else if pc1 \<ge> beta pc2 \<and> pc1 > epsilon pc2 \<and> pc1 < gamma pc2 then
          (if sl \<ge> 0.25 then assign ''Svw'' spec else assign ''Sv'' spec)
        else assign_warn ''S'' spec)"

text \<open>
  In \<^verbatim>\<open>demeo_c_and_x_complexes\<close> the test of the class Cgh reads
  \<^verbatim>\<open>spec.refl[0]\<close> only when its first two conjuncts hold; the test of Ch
  repeats these two conjuncts, so Ch is the case in which the third fails.
\<close>

definition demeo_c_and_x_complexes :: "demeo_spectrum \<Rightarrow> run" where
  "demeo_c_and_x_complexes spec =
     (case pc0_demeo spec of None \<Rightarrow> raise (AttributeError ''pc0_demeo'') spec | Some pc1 \<Rightarrow>
      case pc1_demeo spec of None \<Rightarrow> raise (AttributeError ''pc1_demeo'') spec | Some pc2 \<Rightarrow>
      case pc2_demeo spec of None \<Rightarrow> raise (AttributeError ''pc2_demeo'') spec | Some pc3 \<Rightarrow>
      case pc3_demeo spec of None \<Rightarrow> raise (AttributeError ''pc3_demeo'') spec | Some pc4 \<Rightarrow>
      case pc4_demeo spec of None \<Rightarrow> raise (AttributeError ''pc4_demeo'') spec | Some pc5 \<Rightarrow>
      case slope spec of [] \<Rightarrow> raise (IndexError ''index 0 is out of bounds'') spec | sl # _ \<Rightarrow>
        if - 0.2 < sl \<and> sl < 0 \<and> - 1.2 < pc1 \<and> pc1 < 0 \<and> pc4 < 0 then assign ''B'' spec
        else if 0.2 < sl \<and> sl < 0.38 then assign_warn ''X'' spec
        else if 0.01 < pc4 \<and> pc4 < 0.14 \<and> - 0.75 < pc1 \<and> pc1 < - 0.27 then
          (case refl spec of
             [] \<Rightarrow> raise (IndexError ''index 0 is out of bounds'') spec
           | r0 # _ \<Rightarrow>
              if r0 < 0.92 then
                (case wave spec of
                   [] \<Rightarrow> raise (IndexError ''index 0 is out of bounds'') spec
                 | w0 # _ \<Rightarrow>
                    if w0 \<noteq> 0.45 then assign [] spec
                    else assign_warn ''Cgh'' spec)
              else assign_warn ''Ch'' spec)
        else if - 0.04 < pc4 \<and> pc4 < 0.02 \<and> - 0.07 < pc5 \<and> pc5 < - 0.04 then assign ''Cb'' spec
        else if - 0.85 < pc1 \<and> pc1 < - 0.45 \<and> - 0.06 < pc5 \<and> pc5 < - 0.02 then
          assign_warn ''C'' spec
        else if 0.02 \<le> pc5 \<and> pc5 < 0.1 \<and> - 0.6 < pc1 \<and> pc1 < - 0.16 then
          assign_warn ''Cg'' spec
        else if - 0.45 \<le> pc1 \<and> pc1 < 0.1 \<and> - 0.06 < pc5 \<and> pc5 < 0.05 then
          assign_warn ''Xk'' spec
        else if - 0.1 \<le> pc1 \<and> pc1 < 0.3 \<and> - 0.5 < pc2 \<and> pc2 < - 0.2 then
          assign_warn ''Xe'' spec
        else assign_warn [] spec)"

text \<open>Lines 147 to 197 of \<^verbatim>\<open>decision_tree\<close>: steps 2 and 3.\<close>

definition visir_steps_2_3 :: "real \<Rightarrow> real \<Rightarrow> real \<Rightarrow> real \<Rightarrow> demeo_spectrum \<Rightarrow> run" where
  "visir_steps_2_3 pc1 pc2 pc3 sl spec =
     (if pc1 > alpha pc2 then
        (if pc1 \<ge> gamma pc2 then
           (if sl \<ge> 0.25 then assign ''Vw'' spec else assign ''V'' spec)
         else if pc1 \<le> eta pc2 \<and> pc1 \<ge> theta pc2 \<and> pc1 < delta pc2 then assign ''O'' spec
         else if pc1 \<le> eta pc2 \<and> pc1 \<ge> alpha pc2 \<and> pc1 < theta pc2 then
           (if sl \<ge> 0.25 then assign ''Qw'' spec else assign ''Q'' spec)
         else if pc1 \<ge> eta pc2 \<and> pc1 \<ge> gamma pc2 \<and> pc1 < delta pc2 then assign ''R'' spec
         else demeo_s_complex spec)
      else if 0.38 \<le> sl \<and> sl < 1.5 \<and> - 0.44 < pc1 \<and> pc1 < 0.4 then assign_warn ''D'' spec
      else if 0.25 < sl \<and> sl < 0.38 \<and> - 0.28 < pc2 \<and> pc2 < - 0.2 \<and> - 0.2 < pc3 \<and> pc3 < - 0.12 then
        assign ''T'' spec
      else if 0.07 < pc1 \<and> pc1 < 1.0 \<and> - 0.5 < pc2 \<and> pc2 < - 0.15 then assign_warn ''L'' spec
      else if - 0.075 < pc3 \<and> pc3 < 0.14 \<and> - 0.2 \<le> pc2 \<and> pc2 < - 0.1 \<and> - 0.8 < pc1 \<and> pc1 < - 0.1 then
        assign_warn ''K'' spec
      else demeo_c_and_x_complexes spec)"

text \<open>
  \<^verbatim>\<open>decision_tree\<close>. Unpacking \<^verbatim>\<open>spec.scores_demeo[:4]\<close> into four names
  needs at least four scores. In the indeterminate branch of step 1 the warning
  comes first, before the assignment of the empty string: it raises and the
  spectrum is left as it was.
\<close>

definition decision_tree :: "demeo_spectrum \<Rightarrow> run" where
  "decision_tree spec =
     (case scores_demeo spec of
        None \<Rightarrow> raise (AttributeError ''scores_demeo'') spec
      | Some sc \<Rightarrow>
         if length sc < 4 then raise (ValueError ''not enough values to unpack (expected 4)'') spec
         else
          (let pc1 = sc ! 0; pc2 = sc ! 1; pc3 = sc ! 2; pc4 = sc ! 3 in
           case slope spec of
             [] \<Rightarrow> raise (IndexError ''index 0 is out of bounds'') spec
           | sl # _ \<Rightarrow>
              if pc1 < - 0.3 \<and> pc2 \<ge> 0.2 \<and> sl \<ge> 0.4 then
                (if 0.55 \<le> sl \<and> sl < 1.5 then assign ''A'' spec
                 else if 0.4 \<le> sl \<and> sl < 0.55 then assign ''Sa'' spec
                 else raise (NameError ''classy'') spec)
              else visir_steps_2_3 pc1 pc2 pc3 sl spec))"

text \<open>
  \<^verbatim>\<open>classify\<close>. When the spectrum is not preprocessed, the warning is logged
  and the truth value of \<^verbatim>\<open>spec.wave != WAVE\<close> decides. Line 105 reads the
  name \<^verbatim>\<open>data\<close>, which \<^verbatim>\<open>demeo.py\<close> neither imports nor assigns: it raises
  \<^verbatim>\<open>NameError\<close>, so lines 105 to 109 assign nothing.
\<close>

definition classify :: "demeo_spectrum \<Rightarrow> run" where
  "classify spec =
     (let lg = (if is_preprocessed_demeo spec then []
                else [''['' @ name spec
                       @ '']: Classifying following DeMeo+ 2009 but not preprocessed yet.''])
      in
      case (if is_preprocessed_demeo spec then Inr False
            else (case np_ne (wave spec) WAVE of
                    Inl e \<Rightarrow> Inl e
                  | Inr bs \<Rightarrow> array_truth bs)) of
        Inl e \<Rightarrow> (spec, lg, Inl e)
      | Inr True \<Rightarrow>
          (spec, lg, Inl (ValueError (''['' @ name spec
             @ '']: The wavelength bins do not match the DeMeo+ 2009 sampling.'')))
      | Inr False \<Rightarrow>
          (case demean (refl spec) of
             Inl e \<Rightarrow> (spec, lg, Inl e)
           | Inr refl' \<Rightarrow> (spec, lg, Inl (NameError ''data''))))"

section \<open>Mahlke+ 2022: \<^verbatim>\<open>taxonomies/mahlke.py\<close>\<close>













section \<open>Concrete inputs\<close>

text \<open>
  A reference row at the origin of the score space with a given class, and a
  Tholen spectrum at the origin with a given albedo.
\<close>

definition zero_row :: "string \<Rightarrow> ecas_row" where
  "zero_row c = \<lparr>PC1 = 0, PC2 = 0, PC3 = 0, PC4 = 0, PC5 = 0, PC6 = 0, PC7 = 0, row_class = c\<rparr>"

definition zero_spec :: "npfloat \<Rightarrow> tholen_spectrum" where
  "zero_spec p = \<lparr>tholen_scores = [0, 0, 0, 0, 0, 0, 0], pV = p\<rparr>"

text \<open>
  A preprocessed DeMeo spectrum on the grid with given scores and slope and no
  per-component attributes, and a spectrum with the attributes
  \<^verbatim>\<open>pc0_demeo\<close> to \<^verbatim>\<open>pc4_demeo\<close> set to given values.
\<close>

definition demeo_input :: "real list \<Rightarrow> real \<Rightarrow> demeo_spectrum" where
  "demeo_input sc sl =
     \<lparr>name = ''Ceres'', wave = WAVE, refl = replicate 41 1, slope = [sl],
      is_preprocessed_demeo = True, scores_demeo = Some sc, class_demeo = None,
      pc0_demeo = None, pc1_demeo = None, pc2_demeo = None, pc3_demeo = None,
      pc4_demeo = None\<rparr>"

definition with_pcs :: "real \<Rightarrow> real \<Rightarrow> real \<Rightarrow> real \<Rightarrow> real \<Rightarrow> demeo_spectrum \<Rightarrow> demeo_spectrum" where
  "with_pcs a b c d e spec =
     spec\<lparr>pc0_demeo := Some a, pc1_demeo := Some b, pc2_demeo := Some c,
          pc3_demeo := Some d, pc4_demeo := Some e\<rparr>"





section \<open>Properties of the Tholen module\<close>

lemma decision_tree_tholen_raises:
  "decision_tree_tholen file spec = Inl (AttributeError ''PATH_CACHE'')"
  by (simp add: decision_tree_tholen_def load_classification_def)

text \<open>
  Claim C3. The reference table has one row of class X at the origin of the
  score space and the spectrum lies at the origin with an unknown albedo: the
  nearest class is X and the claim expects the result "X". The module does not
  import; the body of \<^verbatim>\<open>decision_tree\<close> raises on its first line, and
  its later lines raise when they are given the table.
\<close>

theorem tholen_albedo_subtree_raises:
  "import_tholen = Inl (TypeError ''module object is not callable'')
   \<and> decision_tree_tholen [zero_row ''X''] (zero_spec NaN) = Inl (AttributeError ''PATH_CACHE'')
   \<and> decision_tree_on_table [zero_row ''X''] (zero_spec NaN) = Inl (NameError ''np'')
   \<and> decision_tree_tholen [zero_row ''X''] (zero_spec NaN) \<noteq> Inr ''X''"
  by (simp add: import_tholen_def decision_tree_tholen_raises decision_tree_on_table_def)

text \<open>
  Claim C4. The spectrum has the scores of the only row of the table, of class
  S, at distance 0: the claim expects the class "S". No distance is computed,
  with or without the table at hand.
\<close>

theorem tholen_nearest_neighbour_raises:
  "tholen_scores (zero_spec (Fin 0.2))
     = [PC1 (zero_row ''S''), PC2 (zero_row ''S''), PC3 (zero_row ''S''), PC4 (zero_row ''S''),
        PC5 (zero_row ''S''), PC6 (zero_row ''S''), PC7 (zero_row ''S'')]
   \<and> decision_tree_tholen [zero_row ''S''] (zero_spec (Fin 0.2)) = Inl (AttributeError ''PATH_CACHE'')
   \<and> decision_tree_on_table [zero_row ''S''] (zero_spec (Fin 0.2)) = Inl (NameError ''np'')
   \<and> decision_tree_tholen [zero_row ''S''] (zero_spec (Fin 0.2)) \<noteq> Inr (row_class (zero_row ''S''))"
  by (simp add: decision_tree_tholen_raises decision_tree_on_table_def)
    (simp add: zero_spec_def zero_row_def)

text \<open>
  Claim C9. The nearest row has class C and the albedo is unknown: the claim
  expects the result "B". The tests on the albedo are not reached, with or
  without the table at hand.
\<close>

theorem tholen_nan_albedo_raises:
  "pV (zero_spec NaN) = NaN
   \<and> decision_tree_tholen [zero_row ''C''] (zero_spec NaN) = Inl (AttributeError ''PATH_CACHE'')
   \<and> decision_tree_on_table [zero_row ''C''] (zero_spec NaN) = Inl (NameError ''np'')
   \<and> decision_tree_tholen [zero_row ''C''] (zero_spec NaN) \<noteq> Inr ''B''"
  by (simp add: decision_tree_tholen_raises decision_tree_on_table_def) (simp add: zero_spec_def)


section \<open>Properties of the DeMeo classifier\<close>

subsection \<open>Grid, mean and basis\<close>

lemma WAVE_length: "length WAVE = 41"
  by (simp add: WAVE_def np_arange_def)

lemma WAVE_nth: "i < 41 \<Longrightarrow> WAVE ! i = 0.45 + 0.05 * real i"
  by (simp add: WAVE_def np_arange_def)

lemma DATA_MEAN_length: "length DATA_MEAN = 40"
  by (simp add: DATA_MEAN_def)

lemma EIGENVECTORS_shape: "length EIGENVECTORS = 5 \<and> (\<forall>row\<in>set EIGENVECTORS. length row = 40)"
  by (simp add: EIGENVECTORS_def)

lemma dropped_length: "length (take 2 r @ drop 3 r) = 40 \<longleftrightarrow> length r = 41"
  by (simp add: min_def) arith

lemma demean_Inr:
  assumes "length r = 41"
  shows "\<exists>v. demean r = Inr v \<and> length v = 40
           \<and> (\<forall>i<40. v ! i = (if i < 2 then r ! i else r ! Suc i) - DATA_MEAN ! i)"
proof -
  have l: "length (take 2 r @ drop 3 r) = 40"
    using assms by (simp add: dropped_length)
  have n: "(take 2 r @ drop 3 r) ! i = (if i < 2 then r ! i else r ! Suc i)" if "i < 40" for i
    using assms that by (auto simp: nth_append min_def)
  have "demean r = Inr (map2 (-) (take 2 r @ drop 3 r) DATA_MEAN)"
    using l by (simp add: demean_def Let_def DATA_MEAN_length)
  moreover have "length (map2 (-) (take 2 r @ drop 3 r) DATA_MEAN) = 40"
    using l by (simp add: DATA_MEAN_length)
  moreover have "\<forall>i<40. map2 (-) (take 2 r @ drop 3 r) DATA_MEAN ! i
       = (if i < 2 then r ! i else r ! Suc i) - DATA_MEAN ! i"
    using l n by (simp add: DATA_MEAN_length)
  ultimately show ?thesis by blast
qed

lemma demean_Inl:
  assumes "length r \<noteq> 41"
  shows "demean r = Inl (ValueError ''operands could not be broadcast together'')"
  using assms dropped_length [of r] by (simp add: demean_def Let_def DATA_MEAN_length)

text \<open>
  Claim C5, as the code has it. The grid \<^verbatim>\<open>WAVE\<close> has 41 points, from 0.45
  to 2.45 in steps of 0.05 (2.50 is the excluded end of \<^verbatim>\<open>arange\<close>), and
  its point 2 is 0.55. \<^verbatim>\<open>DATA_MEAN\<close> has 40 elements and \<^verbatim>\<open>EIGENVECTORS\<close>
  is 5 by 40. For a reflectance vector on the grid, \<^verbatim>\<open>classify\<close> drops
  element 2 and subtracts the mean, which gives 40 elements; a vector of any
  other length makes the subtraction raise.
\<close>

theorem demeo_dimension_chain:
  "length WAVE = 41
   \<and> (\<forall>i<41. WAVE ! i = 0.45 + 0.05 * real i)
   \<and> WAVE ! 0 = 0.45 \<and> WAVE ! 2 = 0.55 \<and> WAVE ! 40 = 2.45
   \<and> length DATA_MEAN = 40
   \<and> length EIGENVECTORS = 5 \<and> (\<forall>row\<in>set EIGENVECTORS. length row = 40)
   \<and> (\<forall>r. length r = length WAVE \<longrightarrow>
         (\<exists>v. demean r = Inr v \<and> length v = 40
            \<and> (\<forall>i<40. v ! i = (if i < 2 then r ! i else r ! Suc i) - DATA_MEAN ! i)))
   \<and> (\<forall>r. length r \<noteq> length WAVE \<longrightarrow>
         demean r = Inl (ValueError ''operands could not be broadcast together''))"
proof -
  have "WAVE ! 0 = 0.45 \<and> WAVE ! 2 = 0.55 \<and> WAVE ! 40 = 2.45"
    by (simp add: WAVE_nth)
  then show ?thesis
    using WAVE_length WAVE_nth DATA_MEAN_length EIGENVECTORS_shape demean_Inr demean_Inl
    by simp
qed

theorem demeo_dimension_chain_witness:
  "length (replicate 41 (1::real)) = length WAVE
   \<and> (\<exists>v. demean (replicate 41 1) = Inr v \<and> length v = 40 \<and> v ! 0 = 1 - DATA_MEAN ! 0
          \<and> v ! 2 = 1 - DATA_MEAN ! 2)
   \<and> demean (replicate 40 1) = Inl (ValueError ''operands could not be broadcast together'')"
proof -
  have a: "length (replicate 41 (1::real)) = length WAVE"
    using demeo_dimension_chain by simp
  have b: "length (replicate 40 (1::real)) \<noteq> length WAVE"
    using demeo_dimension_chain by simp
  from demeo_dimension_chain a obtain v where
    "demean (replicate 41 1) = Inr v \<and> length v = 40
       \<and> (\<forall>i<40. v ! i = (if i < 2 then replicate 41 1 ! i else replicate 41 1 ! Suc i) - DATA_MEAN ! i)"
    by blast
  then have "demean (replicate 41 1) = Inr v \<and> length v = 40 \<and> v ! 0 = 1 - DATA_MEAN ! 0
          \<and> v ! 2 = 1 - DATA_MEAN ! 2"
    by simp
  moreover have "demean (replicate 40 1) = Inl (ValueError ''operands could not be broadcast together'')"
    using demeo_dimension_chain b by blast
  ultimately show ?thesis using a by blast
qed

text \<open>
  Claim C5 as it is stated fails: the grid does not have 40 points and the mean
  does not have 39 elements, and a reflectance vector of 40 points makes the
  subtraction of the mean raise.
\<close>

theorem demeo_grid_40_counterexample:
  "\<not> (length WAVE = 40 \<and> length DATA_MEAN = 39)
   \<and> demean (replicate 40 1) = Inl (ValueError ''operands could not be broadcast together'')"
  by (simp add: WAVE_length demean_Inl)


subsection \<open>The leaves of the decision tree\<close>



lemma visir_steps_2_3_leaves:
  assumes w: "\<And>c. c \<in> set [''Vw'', ''Qw''] \<Longrightarrow> sl \<ge> 0.25 \<Longrightarrow> P (assign c spec)"
    and b: "\<And>c. c \<in> set [''V'', ''Q''] \<Longrightarrow> \<not> sl \<ge> 0.25 \<Longrightarrow> P (assign c spec)"
    and a: "\<And>c. c \<in> set [''O'', ''R'', ''T''] \<Longrightarrow> P (assign c spec)"
    and d: "\<And>c. c \<in> set [''D'', ''L'', ''K''] \<Longrightarrow> P (assign_warn c spec)"
    and sc: "P (demeo_s_complex spec)"
    and cx: "P (demeo_c_and_x_complexes spec)"
  shows "P (visir_steps_2_3 pc1 pc2 pc3 sl spec)"
proof -
  have u: "P (if A then x else y)" if "P x" "P y" for A x y
    using that by simp
  have s: "P (if sl \<ge> 0.25 then x else y)" if "sl \<ge> 0.25 \<Longrightarrow> P x" "\<not> sl \<ge> 0.25 \<Longrightarrow> P y" for x y
    using that by simp
  show ?thesis
    unfolding visir_steps_2_3_def
    by ((rule s | rule u | rule sc | rule cx
         | (rule w, simp (no_asm), assumption) | (rule b, simp (no_asm), assumption)
         | (rule a, simp (no_asm)) | (rule d, simp (no_asm)))+)
qed

lemma decision_tree_leaves:
  assumes r: "\<And>e. P (raise e spec)"
    and a: "\<And>c. c \<in> set [''A'', ''Sa''] \<Longrightarrow> P (assign c spec)"
    and st: "\<And>pc1 pc2 pc3 sl rest. slope spec = sl # rest \<Longrightarrow> P (visir_steps_2_3 pc1 pc2 pc3 sl spec)"
  shows "P (decision_tree spec)"
proof -
  have u: "P (if A then x else y)" if "P x" "P y" for A x y
    using that by simp
  have opt: "P (case opt of None \<Rightarrow> x | Some v \<Rightarrow> g v)" if "P x" "\<And>v. P (g v)"
    for opt :: "real list option" and x g
    using that by (cases opt) simp_all
  have lst: "P (case l of [] \<Rightarrow> x | v # vs \<Rightarrow> g v vs)"
    if "P x" "\<And>v vs. l = v # vs \<Longrightarrow> P (g v vs)"
    for l :: "real list" and x g
    using that by (cases l) simp_all
  show ?thesis
    unfolding decision_tree_def Let_def
    by ((rule u | rule opt | rule lst | rule r | (rule a, simp (no_asm)) | (rule st, assumption))+)
qed

text \<open>
  The first test of \<^verbatim>\<open>demeo_s_complex\<close> asks for a point below the line
  \<open>beta\<close> and above the line \<open>delta\<close>, which is parallel to it and lies
  higher: no point passes it.
\<close>

lemma s_sw_branch_unreachable: "\<not> (pc1 < beta pc2 \<and> pc1 > delta pc2)"
  by (simp add: beta_def delta_def)


subsection \<open>The slope threshold of the weathered classes\<close>



lemma run_V:
  "decision_tree (demeo_input [1.5, 0, 0, 0, 0] 0.1)
     = ((demeo_input [1.5, 0, 0, 0, 0] 0.1)\<lparr>class_demeo := Some (PyStr ''V'')\<rparr>, [], Inr PyNone)"
  by (simp add: decision_tree_def visir_steps_2_3_def demeo_input_def assign_def
        alpha_def gamma_def)

lemma run_Sqw:
  "decision_tree (with_pcs (- 0.2) 0 0 0 0 (demeo_input [- 0.2, 0, 0, 0, 0] 0.3))
     = ((with_pcs (- 0.2) 0 0 0 0 (demeo_input [- 0.2, 0, 0, 0, 0] 0.3))
          \<lparr>class_demeo := Some (PyStr ''Sqw'')\<rparr>, [], Inr PyNone)"
  by (simp add: decision_tree_def visir_steps_2_3_def demeo_s_complex_def demeo_input_def
        with_pcs_def assign_def Let_def alpha_def beta_def gamma_def delta_def eta_def zeta_def theta_def)



subsection \<open>The delegation to the sub-trees\<close>

lemma classify_raises: "\<exists>lg e. classify spec = (spec, lg, Inl e)"
  by (simp add: classify_def Let_def split: sum.split bool.split)

text \<open>
  Claim C10. \<^verbatim>\<open>classify\<close> assigns none of the attributes \<^verbatim>\<open>pc0_demeo\<close>
  to \<^verbatim>\<open>pc4_demeo\<close>: it leaves the spectrum as it got it. On a spectrum
  without \<^verbatim>\<open>pc0_demeo\<close> both sub-trees raise \<^verbatim>\<open>AttributeError\<close> on
  their first line and change nothing, so that a run of \<^verbatim>\<open>decision_tree\<close>
  that returns has set one of the classes of the tree's own leaves, never a
  class of the S complex or of the C and X complexes.
\<close>

theorem demeo_delegation_fails:
  assumes "pc0_demeo spec = None"
  shows "demeo_s_complex spec = (spec, [], Inl (AttributeError ''pc0_demeo''))
       \<and> demeo_c_and_x_complexes spec = (spec, [], Inl (AttributeError ''pc0_demeo''))
       \<and> (\<forall>spec' lg v. decision_tree spec = (spec', lg, Inr v) \<longrightarrow>
             class_demeo spec' \<in> (\<lambda>c. Some (PyStr c)) `
               set [''A'', ''Sa'', ''Vw'', ''V'', ''O'', ''Qw'', ''Q'', ''R'', ''T''])
       \<and> (\<exists>lg e. classify spec = (spec, lg, Inl e))"
proof -
  define P :: "run \<Rightarrow> bool" where
    "P r \<longleftrightarrow> (\<forall>s' l v. r = (s', l, Inr v) \<longrightarrow>
        class_demeo s' \<in> (\<lambda>c. Some (PyStr c)) `
          set [''A'', ''Sa'', ''Vw'', ''V'', ''O'', ''Qw'', ''Q'', ''R'', ''T''])" for r
  have sc: "demeo_s_complex spec = (spec, [], Inl (AttributeError ''pc0_demeo''))"
    by (simp add: demeo_s_complex_def assms raise_def)
  have cx: "demeo_c_and_x_complexes spec = (spec, [], Inl (AttributeError ''pc0_demeo''))"
    by (simp add: demeo_c_and_x_complexes_def assms raise_def)
  have pr: "P (raise e spec)" for e
    by (simp add: P_def raise_def)
  have pw: "P (assign_warn c spec)" for c
    by (simp add: P_def assign_warn_def)
  have pa: "P (assign c spec)"
    if "c \<in> set [''A'', ''Sa'', ''Vw'', ''V'', ''O'', ''Qw'', ''Q'', ''R'', ''T'']" for c
    using that by (simp add: P_def assign_def)
  have st: "P (visir_steps_2_3 pc1 pc2 pc3 sl spec)" for pc1 pc2 pc3 sl
  proof (rule visir_steps_2_3_leaves)
    show "P (assign c spec)" if "c \<in> set [''Vw'', ''Qw'']" for c
      using that by (intro pa) auto
    show "P (assign c spec)" if "c \<in> set [''V'', ''Q'']" for c
      using that by (intro pa) auto
    show "P (assign c spec)" if "c \<in> set [''O'', ''R'', ''T'']" for c
      using that by (intro pa) auto
    show "P (assign_warn c spec)" for c by (rule pw)
    show "P (demeo_s_complex spec)" by (simp add: sc P_def)
    show "P (demeo_c_and_x_complexes spec)" by (simp add: cx P_def)
  qed
  have "P (decision_tree spec)"
  proof (rule decision_tree_leaves)
    show "P (raise e spec)" for e by (rule pr)
    show "P (assign c spec)" if "c \<in> set [''A'', ''Sa'']" for c
      using that by (intro pa) auto
    show "P (visir_steps_2_3 pc1 pc2 pc3 sl spec)" for pc1 pc2 pc3 sl
      by (rule st)
  qed
  then have dt: "\<forall>spec' lg v. decision_tree spec = (spec', lg, Inr v) \<longrightarrow>
             class_demeo spec' \<in> (\<lambda>c. Some (PyStr c)) `
               set [''A'', ''Sa'', ''Vw'', ''V'', ''O'', ''Qw'', ''Q'', ''R'', ''T'']"
    unfolding P_def by blast
  from sc cx dt classify_raises [of spec] show ?thesis
    by (intro conjI)
qed

lemma run_delegates_s:
  "decision_tree (demeo_input [0.2, 0, 0, 0, 0] 0.1)
     = demeo_s_complex (demeo_input [0.2, 0, 0, 0, 0] 0.1)"
  by (simp add: decision_tree_def visir_steps_2_3_def demeo_input_def Let_def
        alpha_def gamma_def delta_def eta_def theta_def)

lemma run_delegates_cx:
  "decision_tree (demeo_input [- 1, 0, 0, 0, 0] 0.1)
     = demeo_c_and_x_complexes (demeo_input [- 1, 0, 0, 0, 0] 0.1)"
  by (simp add: decision_tree_def visir_steps_2_3_def demeo_input_def Let_def
        alpha_def)

theorem demeo_delegation_fails_witness:
  "pc0_demeo (demeo_input [0.2, 0, 0, 0, 0] 0.1) = None
   \<and> decision_tree (demeo_input [0.2, 0, 0, 0, 0] 0.1)
       = (demeo_input [0.2, 0, 0, 0, 0] 0.1, [], Inl (AttributeError ''pc0_demeo''))
   \<and> pc0_demeo (demeo_input [- 1, 0, 0, 0, 0] 0.1) = None
   \<and> decision_tree (demeo_input [- 1, 0, 0, 0, 0] 0.1)
       = (demeo_input [- 1, 0, 0, 0, 0] 0.1, [], Inl (AttributeError ''pc0_demeo''))"
proof -
  have n: "pc0_demeo (demeo_input sc sl) = None" for sc sl
    by (simp add: demeo_input_def)
  from demeo_delegation_fails [OF n [of "[0.2, 0, 0, 0, 0]" "0.1"]]
    demeo_delegation_fails [OF n [of "[- 1, 0, 0, 0, 0]" "0.1"]] n
  show ?thesis
    by (simp only: run_delegates_s run_delegates_cx simp_thms)
qed


subsection \<open>The branches that resolve no class\<close>

text \<open>
  Claim C2, as the code has it. With the attributes \<^verbatim>\<open>pc0_demeo\<close> to
  \<^verbatim>\<open>pc4_demeo\<close> set, a spectrum that passes none of the tests of
  \<^verbatim>\<open>demeo_s_complex\<close> is given the class "S", and a spectrum that passes none
  of the tests of \<^verbatim>\<open>demeo_c_and_x_complexes\<close> is given the empty string. In
  both functions this assignment is the only change of the spectrum and the
  last thing the function does to it: the call of the logger that follows
  ends the function.
\<close>

theorem demeo_fallbacks:
  assumes "pc0_demeo spec = Some pc1" and "pc1_demeo spec = Some pc2"
    and "pc2_demeo spec = Some pc3" and "pc3_demeo spec = Some pc4"
    and "pc4_demeo spec = Some pc5" and "slope spec = sl # rest"
  shows "(\<not> (pc1 \<ge> alpha pc2 \<and> pc1 < beta pc2 \<and> pc1 > eta pc2 \<and> pc1 \<le> zeta pc2)
          \<and> \<not> (pc1 \<ge> beta pc2 \<and> pc1 < gamma pc2 \<and> pc1 > eta pc2 \<and> pc1 \<le> epsilon pc2)
          \<and> \<not> (pc1 \<ge> beta pc2 \<and> pc1 > epsilon pc2 \<and> pc1 < gamma pc2)
         \<longrightarrow> demeo_s_complex spec
               = (spec\<lparr>class_demeo := Some (PyStr ''S'')\<rparr>, [], Inl (NameError ''classy'')))
       \<and> (\<not> (- 0.2 < sl \<and> sl < 0 \<and> - 1.2 < pc1 \<and> pc1 < 0 \<and> pc4 < 0)
          \<and> \<not> (0.2 < sl \<and> sl < 0.38)
          \<and> \<not> (0.01 < pc4 \<and> pc4 < 0.14 \<and> - 0.75 < pc1 \<and> pc1 < - 0.27)
          \<and> \<not> (- 0.04 < pc4 \<and> pc4 < 0.02 \<and> - 0.07 < pc5 \<and> pc5 < - 0.04)
          \<and> \<not> (- 0.85 < pc1 \<and> pc1 < - 0.45 \<and> - 0.06 < pc5 \<and> pc5 < - 0.02)
          \<and> \<not> (0.02 \<le> pc5 \<and> pc5 < 0.1 \<and> - 0.6 < pc1 \<and> pc1 < - 0.16)
          \<and> \<not> (- 0.45 \<le> pc1 \<and> pc1 < 0.1 \<and> - 0.06 < pc5 \<and> pc5 < 0.05)
          \<and> \<not> (- 0.1 \<le> pc1 \<and> pc1 < 0.3 \<and> - 0.5 < pc2 \<and> pc2 < - 0.2)
         \<longrightarrow> demeo_c_and_x_complexes spec
               = (spec\<lparr>class_demeo := Some (PyStr [])\<rparr>, [], Inl (NameError ''classy'')))"
proof (intro conjI impI)
  have g4: "(if A then x1 else if B then x2 else if C then x3 else if D then x4 else v) = v"
    if "\<not> A" "\<not> B" "\<not> C" "\<not> D" for A B C D and x1 x2 x3 x4 v :: run
    using that by simp
  assume h: "\<not> (pc1 \<ge> alpha pc2 \<and> pc1 < beta pc2 \<and> pc1 > eta pc2 \<and> pc1 \<le> zeta pc2)
          \<and> \<not> (pc1 \<ge> beta pc2 \<and> pc1 < gamma pc2 \<and> pc1 > eta pc2 \<and> pc1 \<le> epsilon pc2)
          \<and> \<not> (pc1 \<ge> beta pc2 \<and> pc1 > epsilon pc2 \<and> pc1 < gamma pc2)"
  have "demeo_s_complex spec = assign_warn ''S'' spec"
    unfolding demeo_s_complex_def assms option.case list.case
    by (rule g4) (use h s_sw_branch_unreachable in blast)+
  then show "demeo_s_complex spec
      = (spec\<lparr>class_demeo := Some (PyStr ''S'')\<rparr>, [], Inl (NameError ''classy''))"
    by (simp add: assign_warn_def)
next
  have g8: "(if A then x1 else if B then x2 else if C then x3 else if D then x4
             else if E then x5 else if F then x6 else if G then x7 else if H then x8 else v) = v"
    if "\<not> A" "\<not> B" "\<not> C" "\<not> D" "\<not> E" "\<not> F" "\<not> G" "\<not> H"
    for A B C D E F G H and x1 x2 x3 x4 x5 x6 x7 x8 v :: run
    using that by simp
  assume h: "\<not> (- 0.2 < sl \<and> sl < 0 \<and> - 1.2 < pc1 \<and> pc1 < 0 \<and> pc4 < 0)
          \<and> \<not> (0.2 < sl \<and> sl < 0.38)
          \<and> \<not> (0.01 < pc4 \<and> pc4 < 0.14 \<and> - 0.75 < pc1 \<and> pc1 < - 0.27)
          \<and> \<not> (- 0.04 < pc4 \<and> pc4 < 0.02 \<and> - 0.07 < pc5 \<and> pc5 < - 0.04)
          \<and> \<not> (- 0.85 < pc1 \<and> pc1 < - 0.45 \<and> - 0.06 < pc5 \<and> pc5 < - 0.02)
          \<and> \<not> (0.02 \<le> pc5 \<and> pc5 < 0.1 \<and> - 0.6 < pc1 \<and> pc1 < - 0.16)
          \<and> \<not> (- 0.45 \<le> pc1 \<and> pc1 < 0.1 \<and> - 0.06 < pc5 \<and> pc5 < 0.05)
          \<and> \<not> (- 0.1 \<le> pc1 \<and> pc1 < 0.3 \<and> - 0.5 < pc2 \<and> pc2 < - 0.2)"
  have "demeo_c_and_x_complexes spec = assign_warn [] spec"
    unfolding demeo_c_and_x_complexes_def assms option.case list.case
    by (rule g8) (use h in blast)+
  then show "demeo_c_and_x_complexes spec
      = (spec\<lparr>class_demeo := Some (PyStr [])\<rparr>, [], Inl (NameError ''classy''))"
    by (simp add: assign_warn_def)
qed

lemma pcs_of_with_pcs:
  "pc0_demeo (with_pcs a b c d e spec) = Some a" "pc1_demeo (with_pcs a b c d e spec) = Some b"
  "pc2_demeo (with_pcs a b c d e spec) = Some c" "pc3_demeo (with_pcs a b c d e spec) = Some d"
  "pc4_demeo (with_pcs a b c d e spec) = Some e"
  "slope (with_pcs a b c d e (demeo_input sc sl)) = [sl]"
  by (simp_all add: with_pcs_def demeo_input_def)

theorem demeo_fallbacks_witness:
  "demeo_s_complex (with_pcs 0.2 0 0 0 0 (demeo_input [0.2, 0, 0, 0, 0] 0.1))
     = ((with_pcs 0.2 0 0 0 0 (demeo_input [0.2, 0, 0, 0, 0] 0.1))
          \<lparr>class_demeo := Some (PyStr ''S'')\<rparr>, [], Inl (NameError ''classy''))
   \<and> demeo_c_and_x_complexes (with_pcs (- 1) 0 0 0 0.2 (demeo_input [- 1, 0, 0, 0, 0.2] 0.1))
     = ((with_pcs (- 1) 0 0 0 0.2 (demeo_input [- 1, 0, 0, 0, 0.2] 0.1))
          \<lparr>class_demeo := Some (PyStr [])\<rparr>, [], Inl (NameError ''classy''))"
proof -
  have p: "pc0_demeo (with_pcs 0.2 0 0 0 0 (demeo_input [0.2, 0, 0, 0, 0] 0.1)) = Some 0.2"
    "pc1_demeo (with_pcs 0.2 0 0 0 0 (demeo_input [0.2, 0, 0, 0, 0] 0.1)) = Some 0"
    "pc2_demeo (with_pcs 0.2 0 0 0 0 (demeo_input [0.2, 0, 0, 0, 0] 0.1)) = Some 0"
    "pc3_demeo (with_pcs 0.2 0 0 0 0 (demeo_input [0.2, 0, 0, 0, 0] 0.1)) = Some 0"
    "pc4_demeo (with_pcs 0.2 0 0 0 0 (demeo_input [0.2, 0, 0, 0, 0] 0.1)) = Some 0"
    "slope (with_pcs 0.2 0 0 0 0 (demeo_input [0.2, 0, 0, 0, 0] 0.1)) = [0.1]"
    by (rule pcs_of_with_pcs)+
  have q: "pc0_demeo (with_pcs (- 1) 0 0 0 0.2 (demeo_input [- 1, 0, 0, 0, 0.2] 0.1)) = Some (- 1)"
    "pc1_demeo (with_pcs (- 1) 0 0 0 0.2 (demeo_input [- 1, 0, 0, 0, 0.2] 0.1)) = Some 0"
    "pc2_demeo (with_pcs (- 1) 0 0 0 0.2 (demeo_input [- 1, 0, 0, 0, 0.2] 0.1)) = Some 0"
    "pc3_demeo (with_pcs (- 1) 0 0 0 0.2 (demeo_input [- 1, 0, 0, 0, 0.2] 0.1)) = Some 0"
    "pc4_demeo (with_pcs (- 1) 0 0 0 0.2 (demeo_input [- 1, 0, 0, 0, 0.2] 0.1)) = Some 0.2"
    "slope (with_pcs (- 1) 0 0 0 0.2 (demeo_input [- 1, 0, 0, 0, 0.2] 0.1)) = [0.1]"
    by (rule pcs_of_with_pcs)+
  have a: "demeo_s_complex (with_pcs 0.2 0 0 0 0 (demeo_input [0.2, 0, 0, 0, 0] 0.1))
     = ((with_pcs 0.2 0 0 0 0 (demeo_input [0.2, 0, 0, 0, 0] 0.1))
          \<lparr>class_demeo := Some (PyStr ''S'')\<rparr>, [], Inl (NameError ''classy''))"
    using demeo_fallbacks [OF p]
    by (simp add: alpha_def beta_def gamma_def epsilon_def zeta_def eta_def)
  have b: "demeo_c_and_x_complexes (with_pcs (- 1) 0 0 0 0.2 (demeo_input [- 1, 0, 0, 0, 0.2] 0.1))
     = ((with_pcs (- 1) 0 0 0 0.2 (demeo_input [- 1, 0, 0, 0, 0.2] 0.1))
          \<lparr>class_demeo := Some (PyStr [])\<rparr>, [], Inl (NameError ''classy''))"
    using demeo_fallbacks [OF q]
    by simp
  from a b show ?thesis by (intro conjI)
qed

text \<open>
  Claim C2 as it is stated fails. A spectrum in the S complex that passes none
  of the four tests leaves \<^verbatim>\<open>decision_tree\<close> with the class "S", not with the
  empty string. A spectrum in the indeterminate branch of step 1 (slope 2)
  leaves it with \<^verbatim>\<open>class_demeo\<close> as it was.
\<close>

theorem demeo_fallback_counterexample:
  "class_demeo (fst (decision_tree (with_pcs 0.2 0 0 0 0 (demeo_input [0.2, 0, 0, 0, 0] 0.1))))
     = Some (PyStr ''S'')
   \<and> class_demeo (fst (decision_tree (with_pcs 0.2 0 0 0 0 (demeo_input [0.2, 0, 0, 0, 0] 0.1))))
     \<noteq> Some (PyStr [])
   \<and> decision_tree (demeo_input [- 0.5, 0.3, 0, 0, 0] 2)
     = (demeo_input [- 0.5, 0.3, 0, 0, 0] 2, [], Inl (NameError ''classy''))
   \<and> class_demeo (demeo_input [- 0.5, 0.3, 0, 0, 0] 2) = None"
  by (simp add: decision_tree_def visir_steps_2_3_def demeo_s_complex_def demeo_input_def
        with_pcs_def assign_def assign_warn_def raise_def Let_def
        alpha_def beta_def gamma_def delta_def epsilon_def eta_def zeta_def theta_def)


subsection \<open>Classifying twice\<close>




section \<open>Properties of the tests before classification\<close>

subsection \<open>Auxiliary facts\<close>














subsection \<open>The coverage test\<close>





subsection \<open>The test of preprocessing\<close>




end
